theory Spec2Isabelle
  imports Complex_Main
begin

section \<open>Values exchanged with the upstream API\<close>

text \<open>
  A JavaScript number as far as the code inspects it: \<open>Number.isFinite\<close> separates the
  finite values from \<open>NaN\<close> and the two infinities.
\<close>

datatype js_number = Finite rat | NaN | PosInfinity | NegInfinity

text \<open>
  A value of type \<open>unknown\<close> as produced by \<open>JSON.parse\<close> or passed by a caller: objects are
  association lists read with \<open>map_of\<close>, and a property that is absent reads as
  \<open>undefined\<close>, here \<open>None\<close>.
\<close>

datatype json =
    JNull
  | JBool bool
  | JNum js_number
  | JStr string
  | JArr "json list"
  | JObj "(string \<times> json) list"

fun isRecord :: "json \<Rightarrow> bool" where
  "isRecord (JObj kvs) = True"
| "isRecord (JArr xs) = True"
| "isRecord v = False"

fun field :: "json \<Rightarrow> string \<Rightarrow> json option" where
  "field (JObj kvs) k = map_of kvs k"
| "field v k = None"

fun asString :: "json option \<Rightarrow> string option" where
  "asString (Some (JStr s)) = (if length s > 0 then Some s else None)"
| "asString v = None"

fun asNumber :: "json option \<Rightarrow> rat option" where
  "asNumber (Some (JNum (Finite q))) = Some q"
| "asNumber v = None"


section \<open>Endpoint descriptors and the duplicate-candidate test\<close>

datatype EndpointContentType = Json | Multipart

datatype PriceType = PerModel | Flat

text \<open>
  \<open>EndpointDescriptor\<close> of types.ts, without the fields \<open>modelPrices\<close> and \<open>raw\<close>, which
  the tool synthesis never reads. The field \<open>method\<close> is \<open>httpMethod\<close> here.
\<close>

record EndpointDescriptor =
  apiKey :: string
  apiName :: string
  path :: string
  httpMethod :: string
  priceType :: PriceType
  description :: string
  contentType :: EndpointContentType
  argumentKeys :: "string list"
  models :: "string list"
  defaultModel :: "string option"
  flatPriceSats :: "rat option"
  fileField :: "string option"
  family :: string
  signature :: string

definition startsWith :: "string \<Rightarrow> string \<Rightarrow> bool" where
  "startsWith s p = (take (length p) s = p)"

text \<open>\<open>split\<close> of a string at a separator character.\<close>

fun splitOn :: "char \<Rightarrow> string \<Rightarrow> string list" where
  "splitOn sep [] = [[]]"
| "splitOn sep (c # cs) =
    (if c = sep then [] # splitOn sep cs
     else (case splitOn sep cs of x # xs \<Rightarrow> (c # x) # xs | [] \<Rightarrow> [[c]]))"

text \<open>\<open>classifyFamily\<close> of catalog.ts, which fills the field \<open>family\<close>.\<close>

definition classifyFamily :: "string \<Rightarrow> string" where
  "classifyFamily p =
    (if startsWith p ''/v1/chat'' \<or> startsWith p ''/v1/responses'' then ''text-generation''
     else if startsWith p ''/v1/images'' then ''image''
     else if startsWith p ''/v1/audio'' then ''audio''
     else if startsWith p ''/v1/video'' then ''video''
     else if startsWith p ''/v1/moderations'' then ''moderation''
     else if startsWith p ''/v1/embeddings'' then ''embedding''
     else (case filter (\<lambda>segment. segment \<noteq> []) (splitOn CHR ''/'' p) of
             first # others \<Rightarrow> first
           | [] \<Rightarrow> ''other''))"

text \<open>
  \<open>modelSetJaccard\<close> of utils.ts. The two \<open>Set\<close>s are the lists without repetitions; the
  quotient of the two counts is a rational number.
\<close>

definition modelSetJaccard :: "string list \<Rightarrow> string list \<Rightarrow> rat" where
  "modelSetJaccard a b =
    (let setA = remdups a; setB = remdups b in
     if length setA = 0 \<and> length setB = 0 then 1
     else
       let intersection = length (filter (\<lambda>v. v \<in> set setB) setA);
           union = length (remdups (setA @ setB))
       in if union = 0 then 0 else of_nat intersection / of_nat union)"

definition isTextPath :: "string \<Rightarrow> bool" where
  "isTextPath p = (p = ''/v1/responses'' \<or> startsWith p ''/v1/chat/'')"

definition isDuplicateCandidate :: "EndpointDescriptor \<Rightarrow> EndpointDescriptor \<Rightarrow> bool" where
  "isDuplicateCandidate a b =
    (let sameMethod = (httpMethod a = httpMethod b);
         sameContentType = (contentType a = contentType b);
         jaccard = modelSetJaccard (models a) (models b);
         sameFamily = (family a = family b \<or> (isTextPath (path a) \<and> isTextPath (path b)))
     in sameMethod \<and> sameContentType \<and> sameFamily \<and> jaccard \<ge> 95 / 100)"


section \<open>Strings and the regular expressions of l402.ts\<close>

text \<open>
  Header values are byte strings, so a \<open>char\<close> is one code unit of the JavaScript
  string. \<open>isSpace\<close> is the class \<open>\s\<close> on these code units; \<open>lowerAscii\<close> folds
  the case of an ASCII letter, which is all the flag \<open>i\<close> does for the ASCII patterns
  used here.
\<close>

definition isSpace :: "char \<Rightarrow> bool" where
  "isSpace c = (c \<in> set [CHR 0x09, CHR 0x0A, CHR 0x0B, CHR 0x0C, CHR 0x0D, CHR 0x20, CHR 0xA0])"

definition lowerAscii :: "char \<Rightarrow> char" where
  "lowerAscii c =
    (let n = (of_char c :: nat) in if 65 \<le> n \<and> n \<le> 90 then char_of (n + 32) else c)"

definition ciPrefix :: "string \<Rightarrow> string \<Rightarrow> bool" where
  "ciPrefix p s =
    (length p \<le> length s \<and> map lowerAscii (take (length p) s) = map lowerAscii p)"

definition endsWith :: "string \<Rightarrow> string \<Rightarrow> bool" where
  "endsWith s p = (length p \<le> length s \<and> drop (length s - length p) s = p)"

definition dquote :: char where
  "dquote = CHR 0x22"

text \<open>
  \<open>/^L402\s+/i.exec(wwwAuth)\<close>: the length of the match, the scheme and all the
  white space after it, or \<open>None\<close> when the header does not start this way.
\<close>

definition matchL402Scheme :: "string \<Rightarrow> nat option" where
  "matchL402Scheme s =
    (if ciPrefix ''L402'' s then
       (let spaces = takeWhile isSpace (drop 4 s)
        in if length spaces \<ge> 1 then Some (4 + length spaces) else None)
     else None)"

text \<open>
  A regular expression without anchor is tried at every position from the left, and
  \<open>exec\<close> returns the first position that matches.
\<close>

fun firstMatch :: "(string \<Rightarrow> 'a option) \<Rightarrow> string \<Rightarrow> 'a option" where
  "firstMatch f [] = f []"
| "firstMatch f (c # cs) =
    (case f (c # cs) of Some v \<Rightarrow> Some v | None \<Rightarrow> firstMatch f cs)"

text \<open>
  \<open>name="([^"]*)"\<close> at the start of \<open>s\<close>: the group is everything up to the next
  double quote, which has to be there.
\<close>

definition matchQuoted :: "string \<Rightarrow> string \<Rightarrow> string option" where
  "matchQuoted name s =
    (if ciPrefix (name @ [CHR ''='', dquote]) s then
       (let rest = drop (length name + 2) s;
            v = takeWhile (\<lambda>c. c \<noteq> dquote) rest
        in if length v < length rest then Some v else None)
     else None)"

text \<open>\<open>name=([^,\s]+)\<close> at the start of \<open>s\<close>: the group is greedy and not empty.\<close>

definition matchUnquoted :: "string \<Rightarrow> string \<Rightarrow> string option" where
  "matchUnquoted name s =
    (if ciPrefix (name @ [CHR ''='']) s then
       (let v = takeWhile (\<lambda>c. c \<noteq> CHR '','' \<and> \<not> isSpace c) (drop (length name + 1) s)
        in if length v \<ge> 1 then Some v else None)
     else None)"

definition extractParam :: "string \<Rightarrow> string \<Rightarrow> string option" where
  "extractParam paramStr name =
    (case firstMatch (matchQuoted name) paramStr of
       Some v \<Rightarrow> if v \<noteq> [] then Some v else firstMatch (matchUnquoted name) paramStr
     | None \<Rightarrow> firstMatch (matchUnquoted name) paramStr)"


section \<open>L402 challenges\<close>

record L402Challenge =
  macaroon :: string
  invoice :: string
  paymentHash :: string
  amountSats :: rat

text \<open>The operator \<open>??\<close>: the right operand is used when the left one is undefined.\<close>

fun orElse :: "'a option \<Rightarrow> 'a option \<Rightarrow> 'a option" where
  "orElse (Some v) y = Some v"
| "orElse None y = y"

definition parseL402Challenge :: "(string \<rightharpoonup> string) \<Rightarrow> json \<Rightarrow> L402Challenge option" where
  "parseL402Challenge headers body =
    (case headers ''www-authenticate'' of
       None \<Rightarrow> None
     | Some wwwAuth \<Rightarrow>
        if wwwAuth = [] then None
        else
          (case matchL402Scheme wwwAuth of
             None \<Rightarrow> None
           | Some n \<Rightarrow>
              (let paramStr = drop n wwwAuth in
               case orElse (extractParam paramStr ''macaroon'') (extractParam paramStr ''token'') of
                 None \<Rightarrow> None
               | Some found \<Rightarrow>
                  if found = [] then None
                  else
                    (let mac = (if endsWith found '':'' then butlast found else found);
                         bodyRecord = (if isRecord body then body else JObj []);
                         inv = orElse (extractParam paramStr ''invoice'')
                                      (asString (field bodyRecord ''invoice''));
                         hash = (case asString (field bodyRecord ''payment_hash'') of
                                   Some h \<Rightarrow> h | None \<Rightarrow> []);
                         amount = (case asNumber (field bodyRecord ''amount_sats'') of
                                     Some a \<Rightarrow> a | None \<Rightarrow> 0)
                     in case inv of
                          None \<Rightarrow> None
                        | Some i \<Rightarrow>
                           if i = [] then None
                           else Some \<lparr>macaroon = mac, invoice = i,
                                      paymentHash = hash, amountSats = amount\<rparr>))))"

definition buildL402Authorization :: "string \<Rightarrow> string \<Rightarrow> string" where
  "buildL402Authorization mac preimage = ''L402 '' @ mac @ '':'' @ preimage"


section \<open>The token cache\<close>


definition mapSet :: "'k \<Rightarrow> 'v \<Rightarrow> ('k \<times> 'v) list \<Rightarrow> ('k \<times> 'v) list" where
  "mapSet k v xs =
    (if k \<in> fst ` set xs then map (\<lambda>(k', v'). if k' = k then (k, v) else (k', v')) xs
     else xs @ [(k, v)])"











section \<open>The failure envelope of results.ts\<close>







section \<open>The HTTP client\<close>

text \<open>
  What \<open>fetchFn\<close> settles to. A response is kept in its normalized form: the status,
  the headers as \<open>headersToRecord\<close> returns them and the body as \<open>parseResponseData\<close>
  returns it. Where the code reads a body and the read fails, the failure reaches the
  same \<open>catch\<close> as a rejected fetch, so it is the outcome \<open>Rejected\<close> of that call.
\<close>

datatype js_error = AbortError string | OtherError string

record NormalizedHttpResponse =
  status :: int
  headers :: "string \<rightharpoonup> string"
  data :: json

datatype FetchResult = Rejected js_error | Resolved NormalizedHttpResponse


text \<open>\<open>AlbomRuntimeError code message status\<close>, the exception of errors.ts.\<close>

datatype AlbomRuntimeError = AlbomRuntimeError string string int

record PreparedUpload =
  fieldName :: string
  fileName :: string
  mimeType :: string
  buffer :: string

datatype RequestBody =
    JsonBody json
  | FormBody "(string \<times> json) list" "PreparedUpload list"
  | RawBody string

record RequestInit =
  reqMethod :: string
  reqHeaders :: "string \<rightharpoonup> string"
  reqBody :: RequestBody

record L402AuthCredentials =
  authMacaroon :: string
  preimage :: string


text \<open>
  \<open>L402Handler.handlePaymentRequired\<close> resolves to a preimage or rejects.
\<close>

type_synonym L402Handler = "L402Challenge \<Rightarrow> js_error + string"

record HttpClientOptions =
  baseUrl :: string
  bearerToken :: "string option"
  l402Handler :: "L402Handler option"
  timeoutMs :: int
  maxRetries :: int

text \<open>
  The effects of a call, in order: every call of \<open>fetchFn\<close> with its outcome, every
  challenge handed to the payment handler, every delay slept.
\<close>

record World =
  fetched :: "(string \<times> RequestInit \<times> FetchResult) list"
  paid :: "L402Challenge list"
  slept :: "int list"

text \<open>
  The surroundings of the client: what the network answers to a request, and what
  \<open>Math.random()\<close> returns, each as a function of what has happened so far. A
  request that runs into the timeout is answered by \<open>Rejected (AbortError m)\<close>.
\<close>

record Env =
  fetchFn :: "World \<Rightarrow> string \<Rightarrow> RequestInit \<Rightarrow> FetchResult"
  random :: "World \<Rightarrow> rat"

definition isRetryableStatus :: "int \<Rightarrow> bool" where
  "isRetryableStatus s = (s = 429 \<or> s \<ge> 500)"




definition fetchWithTimeout ::
  "Env \<Rightarrow> World \<Rightarrow> string \<Rightarrow> RequestInit \<Rightarrow> FetchResult \<times> World" where
  "fetchWithTimeout env w url init =
    (let r = fetchFn env w url init in (r, w\<lparr>fetched := fetched w @ [(url, init, r)]\<rparr>))"

text \<open>\<open>Math.round(200 * 2 ** attempt + Math.random() * 80)\<close>, given the random number.\<close>

definition backoffMs :: "nat \<Rightarrow> rat \<Rightarrow> int" where
  "backoffMs attempt r = round (200 * 2 ^ attempt + r * 80)"

definition sleepBackoff :: "Env \<Rightarrow> World \<Rightarrow> nat \<Rightarrow> World" where
  "sleepBackoff env w attempt = w\<lparr>slept := slept w @ [backoffMs attempt (random env w)]\<rparr>"

definition toErrorMessage :: "js_error \<Rightarrow> string" where
  "toErrorMessage e = (case e of AbortError m \<Rightarrow> m | OtherError m \<Rightarrow> m)"

definition networkFailure :: "js_error \<Rightarrow> AlbomRuntimeError" where
  "networkFailure e =
    (let code = (case e of AbortError m \<Rightarrow> ''upstream_timeout'' | OtherError m \<Rightarrow> ''network_error'');
         st = (if code = ''upstream_timeout'' then 504 else 503)
     in AlbomRuntimeError code (''HTTP request failed: '' @ toErrorMessage e) st)"

text \<open>
  The branch of \<open>requestWithRetries\<close> for a 402 when a payment handler is configured:
  it returns in every case, so it is outside the recursion of the loop.
\<close>

definition autoPay ::
  "Env \<Rightarrow> L402Handler \<Rightarrow> string \<Rightarrow> RequestInit \<Rightarrow> NormalizedHttpResponse \<Rightarrow> World
     \<Rightarrow> (AlbomRuntimeError + NormalizedHttpResponse) \<times> World" where
  "autoPay env handler url init response w =
    (let responseHeaders = headers response;
         body = data response;
         original = \<lparr>status = 402, headers = responseHeaders, data = body\<rparr>
     in case parseL402Challenge responseHeaders body of
          None \<Rightarrow> (Inr original, w)
        | Some challenge \<Rightarrow>
           (let w1 = w\<lparr>paid := paid w @ [challenge]\<rparr> in
            case handler challenge of
              Inl e \<Rightarrow> (Inr original, w1)
            | Inr pre \<Rightarrow>
               (let retryHeaders = (reqHeaders init)
                      (''authorization'' \<mapsto> buildL402Authorization (macaroon challenge) pre)
                in case fetchWithTimeout env w1 url (init\<lparr>reqHeaders := retryHeaders\<rparr>) of
                     (Rejected e, w2) \<Rightarrow> (Inr original, w2)
                   | (Resolved retryResponse, w2) \<Rightarrow> (Inr retryResponse, w2))))"

function attemptLoop ::
  "HttpClientOptions \<Rightarrow> Env \<Rightarrow> string \<Rightarrow> RequestInit \<Rightarrow> nat \<Rightarrow> World
     \<Rightarrow> (AlbomRuntimeError + NormalizedHttpResponse) \<times> World" where
  "attemptLoop opts env url init attempt w =
    (let maxAttempts = maxRetries opts + 1 in
     if \<not> int attempt < maxAttempts then
       (Inl (AlbomRuntimeError ''internal_retry_error'' ''Retry loop exited unexpectedly'' 500), w)
     else
       (case fetchWithTimeout env w url init of
          (Rejected error, w1) \<Rightarrow>
            if int attempt < maxAttempts - 1
            then attemptLoop opts env url init (Suc attempt) (sleepBackoff env w1 attempt)
            else (Inl (networkFailure error), w1)
        | (Resolved response, w1) \<Rightarrow>
            (case (if status response = 402 then l402Handler opts else None) of
               Some handler \<Rightarrow> autoPay env handler url init response w1
             | None \<Rightarrow>
                if isRetryableStatus (status response) \<and> int attempt < maxAttempts - 1
                then attemptLoop opts env url init (Suc attempt) (sleepBackoff env w1 attempt)
                else (Inr response, w1))))"
  by pat_completeness auto
termination
  by (relation "measure (\<lambda>(opts, env, url, init, attempt, w). nat (maxRetries opts + 1 - int attempt))")
     auto

declare attemptLoop.simps [simp del]







section \<open>Tool names\<close>

text \<open>
  \<open>toLowerCase\<close> on code units below 256: the ASCII capitals and the capitals of
  Latin-1 move up by 32.
\<close>

definition lowerChar :: "char \<Rightarrow> char" where
  "lowerChar c =
    (let n = (of_char c :: nat)
     in if (65 \<le> n \<and> n \<le> 90) \<or> (192 \<le> n \<and> n \<le> 222 \<and> n \<noteq> 215)
        then char_of (n + 32) else c)"

definition toLowerCase :: "string \<Rightarrow> string" where
  "toLowerCase s = map lowerChar s"

text \<open>The class \<open>[a-z0-9_]\<close>.\<close>

definition isNameChar :: "char \<Rightarrow> bool" where
  "isNameChar c =
    (let n = (of_char c :: nat)
     in (97 \<le> n \<and> n \<le> 122) \<or> (48 \<le> n \<and> n \<le> 57) \<or> c = CHR ''_'')"

text \<open>\<open>replace(/[^a-z0-9_]+/g, "_")\<close>: every maximal run of other characters becomes one underscore.\<close>

function replaceInvalid :: "string \<Rightarrow> string" where
  "replaceInvalid [] = []"
| "replaceInvalid (c # cs) =
    (if isNameChar c then c # replaceInvalid cs
     else CHR ''_'' # replaceInvalid (dropWhile (\<lambda>d. \<not> isNameChar d) cs))"
  by pat_completeness auto
termination
  by (relation "measure length") (auto simp: length_dropWhile_le less_Suc_eq_le)

text \<open>\<open>replace(/^_+|_+$/g, "")\<close>.\<close>

definition trimUnderscores :: "string \<Rightarrow> string" where
  "trimUnderscores s =
    rev (dropWhile (\<lambda>c. c = CHR ''_'') (rev (dropWhile (\<lambda>c. c = CHR ''_'') s)))"

text \<open>\<open>replace(/_{2,}/g, "_")\<close>.\<close>

function collapseUnderscores :: "string \<Rightarrow> string" where
  "collapseUnderscores [] = []"
| "collapseUnderscores (c # cs) =
    (if c = CHR ''_'' then CHR ''_'' # collapseUnderscores (dropWhile (\<lambda>d. d = CHR ''_'') cs)
     else c # collapseUnderscores cs)"
  by pat_completeness auto
termination
  by (relation "measure length") (auto simp: length_dropWhile_le less_Suc_eq_le)

definition sanitizeToolName :: "string \<Rightarrow> string" where
  "sanitizeToolName input =
    collapseUnderscores (trimUnderscores (replaceInvalid (toLowerCase input)))"

fun joinWith :: "string \<Rightarrow> string list \<Rightarrow> string" where
  "joinWith sep [] = []"
| "joinWith sep [x] = x"
| "joinWith sep (x # y # ys) = x @ sep @ joinWith sep (y # ys)"

definition fullToolName :: "string \<Rightarrow> string \<Rightarrow> string" where
  "fullToolName profileApi endpointPath =
    (let segments = filter (\<lambda>segment. segment \<noteq> ''v1'')
                      (filter (\<lambda>segment. segment \<noteq> []) (splitOn CHR ''/'' endpointPath))
     in sanitizeToolName (joinWith ''_'' ([''albom'', profileApi] @ segments)))"


section \<open>Tool synthesis\<close>

datatype ToolProfile = Compact | Full

text \<open>The fields of \<open>AlbomConfig\<close> that the tool synthesis reads.\<close>

record AlbomConfig =
  toolProfile :: ToolProfile
  includeModeration :: bool
  includeEmbeddings :: bool
  includeVideo :: bool
  allowRawTool :: bool

record CatalogState =
  endpoints :: "EndpointDescriptor list"
  fetchedAt :: string
  hash :: string

record ToolAnnotations =
  readOnlyHint :: "bool option"
  idempotentHint :: "bool option"
  destructiveHint :: "bool option"
  openWorldHint :: "bool option"

record PlannedToolBase =
  name :: string
  title :: string
  description :: string
  annotations :: ToolAnnotations

text \<open>
  The union \<open>PlannedTool\<close>: after the common fields come \<open>endpointPath\<close>, then
  \<open>translationEndpointPath\<close> for the transcription tool, then \<open>contentType\<close> and
  \<open>fileField\<close> for a full-endpoint tool.
\<close>

datatype PlannedTool =
    CatalogGetTool PlannedToolBase
  | TextGenerateTool PlannedToolBase string
  | ImageGenerateTool PlannedToolBase string
  | ImageEditTool PlannedToolBase string
  | AudioTranscribeTool PlannedToolBase string "string option"
  | AudioSpeechTool PlannedToolBase string
  | VideoGenerateTool PlannedToolBase string
  | SafetyModerateTool PlannedToolBase string
  | EmbeddingCreateTool PlannedToolBase string
  | FullEndpointTool PlannedToolBase string EndpointContentType "string option"
  | RawCallTool PlannedToolBase

fun kind :: "PlannedTool \<Rightarrow> string" where
  "kind (CatalogGetTool b) = ''catalog_get''"
| "kind (TextGenerateTool b p) = ''text_generate''"
| "kind (ImageGenerateTool b p) = ''image_generate''"
| "kind (ImageEditTool b p) = ''image_edit''"
| "kind (AudioTranscribeTool b p t) = ''audio_transcribe''"
| "kind (AudioSpeechTool b p) = ''audio_speech''"
| "kind (VideoGenerateTool b p) = ''video_generate''"
| "kind (SafetyModerateTool b p) = ''safety_moderate''"
| "kind (EmbeddingCreateTool b p) = ''embedding_create''"
| "kind (FullEndpointTool b p c f) = ''full_endpoint''"
| "kind (RawCallTool b) = ''raw_call''"

fun base :: "PlannedTool \<Rightarrow> PlannedToolBase" where
  "base (CatalogGetTool b) = b"
| "base (TextGenerateTool b p) = b"
| "base (ImageGenerateTool b p) = b"
| "base (ImageEditTool b p) = b"
| "base (AudioTranscribeTool b p t) = b"
| "base (AudioSpeechTool b p) = b"
| "base (VideoGenerateTool b p) = b"
| "base (SafetyModerateTool b p) = b"
| "base (EmbeddingCreateTool b p) = b"
| "base (FullEndpointTool b p c f) = b"
| "base (RawCallTool b) = b"

definition toolName :: "PlannedTool \<Rightarrow> string" where
  "toolName tool = name (base tool)"

fun endpointPath :: "PlannedTool \<Rightarrow> string option" where
  "endpointPath (CatalogGetTool b) = None"
| "endpointPath (TextGenerateTool b p) = Some p"
| "endpointPath (ImageGenerateTool b p) = Some p"
| "endpointPath (ImageEditTool b p) = Some p"
| "endpointPath (AudioTranscribeTool b p t) = Some p"
| "endpointPath (AudioSpeechTool b p) = Some p"
| "endpointPath (VideoGenerateTool b p) = Some p"
| "endpointPath (SafetyModerateTool b p) = Some p"
| "endpointPath (EmbeddingCreateTool b p) = Some p"
| "endpointPath (FullEndpointTool b p c f) = Some p"
| "endpointPath (RawCallTool b) = None"

definition READ_ONLY_ANNOTATION :: ToolAnnotations where
  "READ_ONLY_ANNOTATION =
    \<lparr>readOnlyHint = Some True, idempotentHint = Some True,
     destructiveHint = Some False, openWorldHint = Some False\<rparr>"

definition DEFAULT_ANNOTATION :: ToolAnnotations where
  "DEFAULT_ANNOTATION =
    \<lparr>readOnlyHint = None, idempotentHint = None,
     destructiveHint = Some False, openWorldHint = Some True\<rparr>"

definition endpointByPath :: "CatalogState \<Rightarrow> string \<Rightarrow> EndpointDescriptor option" where
  "endpointByPath catalog p =
    find (\<lambda>endpoint. path endpoint = p \<and> httpMethod endpoint = ''POST'') (endpoints catalog)"

definition chooseCompactTextEndpoint :: "CatalogState \<Rightarrow> EndpointDescriptor option" where
  "chooseCompactTextEndpoint catalog =
    (let responses = endpointByPath catalog ''/v1/responses'';
         chat = endpointByPath catalog ''/v1/chat/completions''
     in case responses of
          None \<Rightarrow> chat
        | Some r \<Rightarrow>
           (case chat of
              None \<Rightarrow> Some r
            | Some c \<Rightarrow> if isDuplicateCandidate c r then Some r else Some r))"

text \<open>One \<open>if (found) tools.push(...)\<close> of \<open>makeCompactTools\<close>.\<close>

definition pushIf :: "'a option \<Rightarrow> ('a \<Rightarrow> PlannedTool) \<Rightarrow> PlannedTool list \<Rightarrow> PlannedTool list" where
  "pushIf found build acc = (case found of Some e \<Rightarrow> acc @ [build e] | None \<Rightarrow> acc)"

definition catalogGetTool :: PlannedTool where
  "catalogGetTool = CatalogGetTool
     \<lparr>name = ''albom_catalog_get'', title = ''Get ALBOM Catalog'',
      description = ''Get normalized ALBOM catalog data and derived tool summary.'',
      annotations = READ_ONLY_ANNOTATION\<rparr>"

definition rawCallTool :: PlannedTool where
  "rawCallTool = RawCallTool
     \<lparr>name = ''albom_raw_call'', title = ''Raw ALBOM Call'',
      description = ''Raw allowlisted endpoint caller for advanced use only.'',
      annotations = DEFAULT_ANNOTATION\<rparr>"

definition makeCompactTools :: "CatalogState \<Rightarrow> AlbomConfig \<Rightarrow> PlannedTool list" where
  "makeCompactTools catalog config =
    (let tools0 = [catalogGetTool];
         tools1 = pushIf (chooseCompactTextEndpoint catalog)
           (\<lambda>textEndpoint. TextGenerateTool
              \<lparr>name = ''albom_text_generate'', title = ''Text Generation'',
               description = ''Generate text responses via '' @ path textEndpoint @ ''.'',
               annotations = DEFAULT_ANNOTATION\<rparr> (path textEndpoint)) tools0;
         tools2 = pushIf (endpointByPath catalog ''/v1/images/generations'')
           (\<lambda>imageGenerate. ImageGenerateTool
              \<lparr>name = ''albom_image_generate'', title = ''Image Generation'',
               description = ''Generate new images from text prompts.'',
               annotations = DEFAULT_ANNOTATION\<rparr> (path imageGenerate)) tools1;
         tools3 = pushIf (endpointByPath catalog ''/v1/images/edits'')
           (\<lambda>imageEdit. ImageEditTool
              \<lparr>name = ''albom_image_edit'', title = ''Image Edit'',
               description = ''Edit an input image with prompt instructions.'',
               annotations = DEFAULT_ANNOTATION\<rparr> (path imageEdit)) tools2;
         tools4 = pushIf (endpointByPath catalog ''/v1/audio/transcriptions'')
           (\<lambda>audioTranscribe. AudioTranscribeTool
              \<lparr>name = ''albom_audio_transcribe'', title = ''Audio Transcribe'',
               description = ''Transcribe audio. Set translate_to_english=true to route to translation.'',
               annotations = DEFAULT_ANNOTATION\<rparr> (path audioTranscribe)
              (map_option path (endpointByPath catalog ''/v1/audio/translations''))) tools3;
         tools5 = pushIf (endpointByPath catalog ''/v1/audio/speech'')
           (\<lambda>audioSpeech. AudioSpeechTool
              \<lparr>name = ''albom_audio_speech'', title = ''Audio Speech'',
               description = ''Synthesize speech from text input.'',
               annotations = DEFAULT_ANNOTATION\<rparr> (path audioSpeech)) tools4;
         tools6 = (if includeVideo config then
            pushIf (endpointByPath catalog ''/v1/video/generations'')
              (\<lambda>videoGenerate. VideoGenerateTool
                 \<lparr>name = ''albom_video_generate'', title = ''Video Generation'',
                  description = ''Generate videos from text prompts. This endpoint can be expensive.'',
                  annotations = DEFAULT_ANNOTATION\<lparr>idempotentHint := Some False\<rparr>\<rparr>
                 (path videoGenerate)) tools5
            else tools5);
         tools7 = (if includeModeration config then
            pushIf (endpointByPath catalog ''/v1/moderations'')
              (\<lambda>moderation. SafetyModerateTool
                 \<lparr>name = ''albom_safety_moderate'', title = ''Safety Moderate'',
                  description = ''Classify text content with moderation models.'',
                  annotations = READ_ONLY_ANNOTATION\<rparr> (path moderation)) tools6
            else tools6);
         tools8 = (if includeEmbeddings config then
            pushIf (endpointByPath catalog ''/v1/embeddings'')
              (\<lambda>embeddings. EmbeddingCreateTool
                 \<lparr>name = ''albom_embedding_create'', title = ''Embedding Create'',
                  description = ''Generate embeddings for text input.'',
                  annotations = READ_ONLY_ANNOTATION\<rparr> (path embeddings)) tools7
            else tools7)
     in if allowRawTool config then tools8 @ [rawCallTool] else tools8)"

definition shouldIncludeFullEndpoint :: "EndpointDescriptor \<Rightarrow> AlbomConfig \<Rightarrow> bool" where
  "shouldIncludeFullEndpoint endpoint config =
    (if \<not> includeVideo config \<and> path endpoint = ''/v1/video/generations'' then False
     else if \<not> includeModeration config \<and> path endpoint = ''/v1/moderations'' then False
     else if \<not> includeEmbeddings config \<and> path endpoint = ''/v1/embeddings'' then False
     else True)"

text \<open>
  The loop of \<open>makeFullTools\<close> over the endpoints, with the tools pushed so far and the
  set \<open>usedNames\<close>.
\<close>

fun fullEndpointLoop ::
  "AlbomConfig \<Rightarrow> EndpointDescriptor list \<Rightarrow> PlannedTool list \<Rightarrow> string set \<Rightarrow> PlannedTool list" where
  "fullEndpointLoop config [] tools usedNames = tools"
| "fullEndpointLoop config (endpoint # rest) tools usedNames =
    (if httpMethod endpoint \<noteq> ''POST'' then fullEndpointLoop config rest tools usedNames
     else if \<not> shouldIncludeFullEndpoint endpoint config
       then fullEndpointLoop config rest tools usedNames
     else
       (let name0 = fullToolName (apiKey endpoint) (path endpoint);
            name1 = (if name0 \<in> usedNames
                     then sanitizeToolName (name0 @ ''_'' @ toLowerCase (httpMethod endpoint))
                     else name0)
        in fullEndpointLoop config rest
             (tools @ [FullEndpointTool
                \<lparr>name = name1, title = apiName endpoint @ '' '' @ path endpoint,
                 description = EndpointDescriptor.description endpoint,
                 annotations = DEFAULT_ANNOTATION\<rparr>
                (path endpoint) (contentType endpoint) (fileField endpoint)])
             (insert name1 usedNames)))"

definition makeFullTools :: "CatalogState \<Rightarrow> AlbomConfig \<Rightarrow> PlannedTool list" where
  "makeFullTools catalog config =
    (let tools0 = [catalogGetTool];
         usedNames = set (map toolName tools0);
         tools1 = fullEndpointLoop config (endpoints catalog) tools0 usedNames
     in if allowRawTool config then tools1 @ [rawCallTool] else tools1)"

text \<open>
  The object that \<open>buildToolSignature\<close> serialises and hashes: the profile and, for
  every tool, its kind, name, endpoint path, translation path and content type. The
  composition of \<open>stableStringify\<close> and SHA-256 is the parameter \<open>digest\<close>.
\<close>

type_synonym SignatureInput =
  "ToolProfile \<times> (string \<times> string \<times> string option \<times> string option \<times> EndpointContentType option) list"

fun signatureFields ::
  "PlannedTool \<Rightarrow> string \<times> string \<times> string option \<times> string option \<times> EndpointContentType option" where
  "signatureFields (AudioTranscribeTool b p t) = (''audio_transcribe'', name b, Some p, t, None)"
| "signatureFields (FullEndpointTool b p c f) = (''full_endpoint'', name b, Some p, None, Some c)"
| "signatureFields tool = (kind tool, toolName tool, endpointPath tool, None, None)"

definition buildToolSignature ::
  "(SignatureInput \<Rightarrow> string) \<Rightarrow> ToolProfile \<Rightarrow> PlannedTool list \<Rightarrow> string" where
  "buildToolSignature digest profile tools = digest (profile, map signatureFields tools)"

record ToolState =
  profile :: ToolProfile
  tools :: "PlannedTool list"
  signature :: string

definition buildToolState ::
  "(SignatureInput \<Rightarrow> string) \<Rightarrow> CatalogState \<Rightarrow> AlbomConfig \<Rightarrow> ToolState" where
  "buildToolState digest catalog config =
    (let planned = (if toolProfile config = Compact then makeCompactTools catalog config
                    else makeFullTools catalog config)
     in \<lparr>profile = toolProfile config, tools = planned,
         signature = buildToolSignature digest (toolProfile config) planned\<rparr>)"


section \<open>The tool registry\<close>











section \<open>Notions used in the statements\<close>




text \<open>
  The macaroon and the invoice that \<open>parseL402Challenge\<close> resolves from the parameters
  of the header and from the body.
\<close>

definition resolvedMacaroon :: "string \<Rightarrow> string option" where
  "resolvedMacaroon paramStr =
     orElse (extractParam paramStr ''macaroon'') (extractParam paramStr ''token'')"

definition resolvedInvoice :: "string \<Rightarrow> json \<Rightarrow> string option" where
  "resolvedInvoice paramStr body =
     orElse (extractParam paramStr ''invoice'') (asString (field body ''invoice''))"










text \<open>A catalog offers a path when it lists a POST endpoint with that path.\<close>

definition offers :: "CatalogState \<Rightarrow> string \<Rightarrow> bool" where
  "offers catalog p = (\<exists>e \<in> set (endpoints catalog). path e = p \<and> httpMethod e = ''POST'')"











text \<open>The names of a tool list are pairwise different and all lie in a given set.\<close>

definition uniqueNamesWithin :: "string set \<Rightarrow> PlannedTool list \<Rightarrow> bool" where
  "uniqueNamesWithin S ts = (distinct (map toolName ts) \<and> set (map toolName ts) \<subseteq> S)"

text \<open>
  The character constraint on a tool name: lowercase letters, digits and underscores,
  no underscore at either end, no two underscores in a row.
\<close>

fun noDoubleUnderscore :: "string \<Rightarrow> bool" where
  "noDoubleUnderscore (c # d # cs) =
     (\<not> (c = CHR ''_'' \<and> d = CHR ''_'') \<and> noDoubleUnderscore (d # cs))"
| "noDoubleUnderscore cs = True"

definition validToolName :: "string \<Rightarrow> bool" where
  "validToolName s =
    ((\<forall>c \<in> set s. isNameChar c) \<and>
     (s \<noteq> [] \<longrightarrow> hd s \<noteq> CHR ''_'' \<and> last s \<noteq> CHR ''_'') \<and>
     noDoubleUnderscore s)"


section \<open>Example inputs\<close>

definition standardChallengeHeader :: string where
  "standardChallengeHeader =
    ''L402 macaroon='' @ [dquote] @ ''mac_abc123'' @ [dquote] @
    '', invoice='' @ [dquote] @ ''lnbc100n'' @ [dquote]"

definition colonChallengeHeader :: string where
  "colonChallengeHeader = ''L402 macaroon='' @ [dquote] @ ''mac_test:'' @ [dquote]"

definition moderationsEndpoint :: EndpointDescriptor where
  "moderationsEndpoint =
    \<lparr>apiKey = ''openai'', apiName = ''OpenAI'', path = ''/v1/moderations'', httpMethod = ''POST'',
     priceType = Flat, description = ''Moderations'', contentType = Json, argumentKeys = [],
     models = [], defaultModel = None, flatPriceSats = Some 5, fileField = None,
     family = ''moderation'', signature = ''s1''\<rparr>"


definition plainOptions :: HttpClientOptions where
  "plainOptions =
    \<lparr>baseUrl = ''https://alittlebitofmoney.com'', bearerToken = None, l402Handler = None,
     timeoutMs = 90000, maxRetries = 2\<rparr>"


definition emptyWorld :: World where
  "emptyWorld = \<lparr>fetched = [], paid = [], slept = []\<rparr>"

definition payingHandler :: L402Handler where
  "payingHandler challenge = Inr ''00ff''"

definition failingHandler :: L402Handler where
  "failingHandler challenge = Inl (OtherError ''wallet offline'')"


definition okResponse :: NormalizedHttpResponse where
  "okResponse = \<lparr>status = 200, headers = [''content-type'' \<mapsto> ''application/json''],
                  data = JObj [(''ok'', JBool True)]\<rparr>"






definition endpointAt :: "string \<Rightarrow> string \<Rightarrow> string list \<Rightarrow> EndpointDescriptor" where
  "endpointAt api p ms =
    \<lparr>apiKey = api, apiName = ''OpenAI'', path = p, httpMethod = ''POST'',
     priceType = PerModel, description = ''POST '' @ p, contentType = Json, argumentKeys = [],
     models = ms, defaultModel = None, flatPriceSats = None, fileField = None,
     family = classifyFamily p, signature = ''sig''\<rparr>"

definition catalogOf :: "EndpointDescriptor list \<Rightarrow> CatalogState" where
  "catalogOf es = \<lparr>endpoints = es, fetchedAt = ''2026-02-24T00:00:00.000Z'', hash = ''h''\<rparr>"

definition compactConfig :: AlbomConfig where
  "compactConfig =
    \<lparr>toolProfile = Compact, includeModeration = False, includeEmbeddings = False,
     includeVideo = True, allowRawTool = False\<rparr>"

definition fullConfig :: AlbomConfig where
  "fullConfig =
    \<lparr>toolProfile = Full, includeModeration = True, includeEmbeddings = True,
     includeVideo = True, allowRawTool = False\<rparr>"

text \<open>A stand-in for the digest: the tool names, one after the other.\<close>

definition namesDigest :: "SignatureInput \<Rightarrow> string" where
  "namesDigest input = concat (map (\<lambda>(k, n, rest). n @ '';'') (snd input))"

definition textCatalog :: CatalogState where
  "textCatalog = catalogOf
     [endpointAt ''openai'' ''/v1/chat/completions'' [''gpt-4o'', ''gpt-4o-mini''],
      endpointAt ''openai'' ''/v1/images/edits'' [''gpt-image-1''],
      endpointAt ''openai'' ''/v1/images/generations'' [''dall-e-3'', ''gpt-image-1''],
      endpointAt ''openai'' ''/v1/responses'' [''gpt-4o'', ''gpt-4o-mini'']]"






definition rawCollisionCatalog :: CatalogState where
  "rawCollisionCatalog = catalogOf [endpointAt ''raw'' ''/call'' []]"

definition repeatedCatalog :: CatalogState where
  "repeatedCatalog = catalogOf
     [endpointAt ''openai'' ''/v1/responses'' [''gpt-4o''],
      endpointAt ''openai'' ''/v1/responses'' [''gpt-4o''],
      endpointAt ''openai'' ''/v1/responses'' [''gpt-4o'']]"




definition challenge402 :: NormalizedHttpResponse where
  "challenge402 =
    \<lparr>status = 402,
     headers = [''content-type'' \<mapsto> ''application/json'',
                ''www-authenticate'' \<mapsto> standardChallengeHeader],
     data = JObj [(''status'', JStr ''payment_required''), (''payment_hash'', JStr ''ph_001''),
                  (''amount_sats'', JNum (Finite 30))]\<rparr>"

definition challengeEnv :: Env where
  "challengeEnv =
    \<lparr>fetchFn = (\<lambda>w url init. if fetched w = [] then Resolved challenge402 else Resolved okResponse),
     random = (\<lambda>w. 0)\<rparr>"

definition autoPayOptions :: HttpClientOptions where
  "autoPayOptions = plainOptions\<lparr>l402Handler := Some payingHandler, maxRetries := 0\<rparr>"





definition jsonInit :: RequestInit where
  "jsonInit =
    \<lparr>reqMethod = ''POST'',
     reqHeaders = [''accept'' \<mapsto> ''*/*'', ''content-type'' \<mapsto> ''application/json''],
     reqBody = JsonBody (JObj [(''input'', JStr ''hello'')])\<rparr>"

definition standardChallenge :: L402Challenge where
  "standardChallenge =
    \<lparr>macaroon = ''mac_abc123'', invoice = ''lnbc100n'', paymentHash = ''ph_001'', amountSats = 30\<rparr>"


section \<open>Duplicate candidates without models\<close>

text \<open>
  Claim C10. \<open>modelSetJaccard\<close> of two empty model lists is 1, and so two POST endpoints
  that both declare no models are duplicate candidates as soon as they have the same
  method, the same content type and the same family.
\<close>

theorem C10_empty_models_are_duplicate_candidates:
  "modelSetJaccard [] [] = 1 \<and>
   (models a = [] \<and> models b = [] \<and> httpMethod a = ''POST'' \<and> httpMethod a = httpMethod b \<and>
    contentType a = contentType b \<and> family a = family b
      \<longrightarrow> isDuplicateCandidate a b)"
  by (auto simp add: modelSetJaccard_def isDuplicateCandidate_def)

theorem C10_empty_models_witness:
  "models moderationsEndpoint = [] \<and>
   models (moderationsEndpoint\<lparr>path := ''/v1/moderations/batch''\<rparr>) = [] \<and>
   httpMethod moderationsEndpoint = ''POST'' \<and>
   isDuplicateCandidate moderationsEndpoint (moderationsEndpoint\<lparr>path := ''/v1/moderations/batch''\<rparr>)"
  using C10_empty_models_are_duplicate_candidates
    [of moderationsEndpoint "moderationsEndpoint\<lparr>path := ''/v1/moderations/batch''\<rparr>"]
  by (simp add: moderationsEndpoint_def)


section \<open>Authorization headers\<close>






section \<open>Error codes of the failure envelope\<close>





section \<open>Parsing the challenge\<close>

lemma firstMatch_unquoted_nonempty:
  "firstMatch (matchUnquoted n) s = Some v \<Longrightarrow> v \<noteq> []"
  by (induction s) (auto simp: matchUnquoted_def Let_def split: if_splits option.splits)

lemma extractParam_nonempty: "extractParam s n = Some v \<Longrightarrow> v \<noteq> []"
  by (auto simp: extractParam_def split: option.splits if_splits dest: firstMatch_unquoted_nonempty)

lemma orElse_nonempty:
  "orElse a b = Some v \<Longrightarrow> (\<And>x. a = Some x \<Longrightarrow> x \<noteq> []) \<Longrightarrow> (\<And>x. b = Some x \<Longrightarrow> x \<noteq> []) \<Longrightarrow> v \<noteq> []"
  by (cases a) auto

lemma asString_nonempty: "asString j = Some v \<Longrightarrow> v \<noteq> []"
  by (cases j rule: asString.cases) (auto split: if_splits)

lemma resolvedMacaroon_nonempty: "resolvedMacaroon p = Some v \<Longrightarrow> v \<noteq> []"
  unfolding resolvedMacaroon_def by (erule orElse_nonempty) (auto dest: extractParam_nonempty)

lemma resolvedInvoice_nonempty: "resolvedInvoice p b = Some v \<Longrightarrow> v \<noteq> []"
  unfolding resolvedInvoice_def
  by (erule orElse_nonempty) (auto dest: extractParam_nonempty asString_nonempty)

lemma field_nonrecord: "\<not> isRecord b \<Longrightarrow> field b k = None"
  by (cases b) auto

lemma field_empty: "field (JObj []) k = None"
  by simp

lemma matchL402Scheme_Nil: "matchL402Scheme [] = None"
  by (simp add: matchL402Scheme_def ciPrefix_def)

lemma field_bodyRecord: "field (if isRecord b then b else JObj []) k = field b k"
  by (simp add: field_nonrecord)

lemma parse_unfold:
  "parseL402Challenge hs body =
    (case hs ''www-authenticate'' of
       None \<Rightarrow> None
     | Some wwwAuth \<Rightarrow>
        (case matchL402Scheme wwwAuth of
           None \<Rightarrow> None
         | Some n \<Rightarrow>
            (case resolvedMacaroon (drop n wwwAuth) of
               None \<Rightarrow> None
             | Some found \<Rightarrow>
                (case resolvedInvoice (drop n wwwAuth) body of
                   None \<Rightarrow> None
                 | Some i \<Rightarrow>
                    Some \<lparr>macaroon = (if endsWith found '':'' then butlast found else found),
                          invoice = i,
                          paymentHash = (case asString (field body ''payment_hash'') of
                                           Some h \<Rightarrow> h | None \<Rightarrow> []),
                          amountSats = (case asNumber (field body ''amount_sats'') of
                                          Some a \<Rightarrow> a | None \<Rightarrow> 0)\<rparr>))))"
proof (cases "hs ''www-authenticate''")
  case None
  then show ?thesis by (simp add: parseL402Challenge_def)
next
  case (Some wwwAuth)
  show ?thesis
  proof (cases "matchL402Scheme wwwAuth")
    case None
    with Some show ?thesis by (simp add: parseL402Challenge_def)
  next
    case (Some n)
    with \<open>hs ''www-authenticate'' = Some wwwAuth\<close> have ne: "wwwAuth \<noteq> []"
      using matchL402Scheme_Nil by auto
    show ?thesis
    proof (cases "resolvedMacaroon (drop n wwwAuth)")
      case None
      with Some ne \<open>hs ''www-authenticate'' = Some wwwAuth\<close> show ?thesis
        by (simp add: parseL402Challenge_def Let_def resolvedMacaroon_def)
    next
      case found: (Some found)
      then have fne: "found \<noteq> []" by (rule resolvedMacaroon_nonempty)
      show ?thesis
      proof (cases "resolvedInvoice (drop n wwwAuth) body")
        case None
        with found fne Some ne \<open>hs ''www-authenticate'' = Some wwwAuth\<close> show ?thesis
          by (simp add: parseL402Challenge_def Let_def resolvedMacaroon_def resolvedInvoice_def
              field_bodyRecord)
      next
        case inv: (Some i)
        then have "i \<noteq> []" by (rule resolvedInvoice_nonempty)
        with inv found fne Some ne \<open>hs ''www-authenticate'' = Some wwwAuth\<close> show ?thesis
          by (simp add: parseL402Challenge_def Let_def resolvedMacaroon_def resolvedInvoice_def
              field_bodyRecord)
      qed
    qed
  qed
qed

text \<open>
  Claim C7. The header \<open>L402 macaroon="mac_abc123", invoice="lnbc100n"\<close> with the body
  \<open>{payment_hash: "ph_001", amount_sats: 30}\<close> parses to the challenge with these four
  values; a macaroon that ends in a colon loses that colon; and the result is undefined
  when the header is absent, when it is not of the L402 scheme, when no macaroon is
  resolved and when no invoice is resolved.
\<close>

theorem C7_parse:
  "parseL402Challenge [''www-authenticate'' \<mapsto> standardChallengeHeader]
      (JObj [(''payment_hash'', JStr ''ph_001''), (''amount_sats'', JNum (Finite 30))])
     = Some \<lparr>macaroon = ''mac_abc123'', invoice = ''lnbc100n'',
             paymentHash = ''ph_001'', amountSats = 30\<rparr> \<and>
   (hs ''www-authenticate'' = Some wwwAuth \<and> matchL402Scheme wwwAuth = Some n \<and>
    resolvedMacaroon (drop n wwwAuth) = Some (m @ '':'') \<and>
    parseL402Challenge hs body = Some challenge \<longrightarrow> macaroon challenge = m) \<and>
   (hs ''www-authenticate'' = None \<longrightarrow> parseL402Challenge hs body = None) \<and>
   (hs ''www-authenticate'' = Some wwwAuth \<and> matchL402Scheme wwwAuth = None \<longrightarrow>
      parseL402Challenge hs body = None) \<and>
   (hs ''www-authenticate'' = Some wwwAuth \<and> matchL402Scheme wwwAuth = Some n \<and>
    resolvedMacaroon (drop n wwwAuth) = None \<longrightarrow> parseL402Challenge hs body = None) \<and>
   (hs ''www-authenticate'' = Some wwwAuth \<and> matchL402Scheme wwwAuth = Some n \<and>
    resolvedInvoice (drop n wwwAuth) body = None \<longrightarrow> parseL402Challenge hs body = None)"
proof -
  have ex: "parseL402Challenge [''www-authenticate'' \<mapsto> standardChallengeHeader]
      (JObj [(''payment_hash'', JStr ''ph_001''), (''amount_sats'', JNum (Finite 30))])
     = Some \<lparr>macaroon = ''mac_abc123'', invoice = ''lnbc100n'',
             paymentHash = ''ph_001'', amountSats = 30\<rparr>"
    by code_simp
  show ?thesis
    by (rule conjI[OF ex]) (auto simp: parse_unfold endsWith_def split: option.splits)
qed

theorem C7_parse_witness:
  "parseL402Challenge [''www-authenticate'' \<mapsto> colonChallengeHeader]
      (JObj [(''invoice'', JStr ''lnbc300n''), (''payment_hash'', JStr ''ph_003''),
             (''amount_sats'', JNum (Finite 10))])
     = Some \<lparr>macaroon = ''mac_test'', invoice = ''lnbc300n'',
             paymentHash = ''ph_003'', amountSats = 10\<rparr> \<and>
   parseL402Challenge Map.empty (JObj []) = None \<and>
   parseL402Challenge [''www-authenticate'' \<mapsto> ''Bearer realm=test''] (JObj []) = None \<and>
   parseL402Challenge [''www-authenticate'' \<mapsto> ''L402 foo=bar''] (JObj [(''invoice'', JStr ''lnbc'')]) = None \<and>
   parseL402Challenge [''www-authenticate'' \<mapsto> colonChallengeHeader] (JObj []) = None"
proof -
  have scheme: "matchL402Scheme colonChallengeHeader = Some 5"
    by code_simp
  have mac: "resolvedMacaroon (drop 5 colonChallengeHeader) = Some (''mac_test'' @ '':'')"
    by code_simp
  have p: "parseL402Challenge [''www-authenticate'' \<mapsto> colonChallengeHeader]
      (JObj [(''invoice'', JStr ''lnbc300n''), (''payment_hash'', JStr ''ph_003''),
             (''amount_sats'', JNum (Finite 10))])
     = Some \<lparr>macaroon = ''mac_test'', invoice = ''lnbc300n'',
             paymentHash = ''ph_003'', amountSats = 10\<rparr>"
    by code_simp
  have bearer: "matchL402Scheme ''Bearer realm=test'' = None"
    by code_simp
  have foo: "matchL402Scheme ''L402 foo=bar'' = Some 5" by code_simp
  have foomac: "resolvedMacaroon (drop 5 ''L402 foo=bar'') = None" by code_simp
  have noinv: "resolvedInvoice (drop 5 colonChallengeHeader) (JObj []) = None" by code_simp
  show ?thesis
    using C7_parse [of "[''www-authenticate'' \<mapsto> colonChallengeHeader]" colonChallengeHeader 5
        "''mac_test''" "JObj [(''invoice'', JStr ''lnbc300n''), (''payment_hash'', JStr ''ph_003''),
             (''amount_sats'', JNum (Finite 10))]"
        "\<lparr>macaroon = ''mac_test'', invoice = ''lnbc300n'',
             paymentHash = ''ph_003'', amountSats = 10\<rparr>"]
      C7_parse [of Map.empty _ _ _ "JObj []"]
      C7_parse [of "[''www-authenticate'' \<mapsto> ''Bearer realm=test'']" "''Bearer realm=test''" _ _ "JObj []"]
      C7_parse [of "[''www-authenticate'' \<mapsto> ''L402 foo=bar'']" "''L402 foo=bar''" 5 _ "JObj [(''invoice'', JStr ''lnbc'')]"]
      C7_parse [of "[''www-authenticate'' \<mapsto> colonChallengeHeader]" colonChallengeHeader 5 _ "JObj []"]
      scheme mac p bearer foo foomac noinv
    by simp
qed


section \<open>The token cache stays within its capacity\<close>


lemma keys_mapSet: "fst ` set (mapSet k v xs) = insert k (fst ` set xs)"
  by (force simp: mapSet_def image_iff split: if_splits)
























section \<open>Reconciling the registered tools\<close>







section \<open>The compact profile\<close>

lemma find_path: "find (\<lambda>e. path e = p \<and> httpMethod e = ''POST'') es = Some e \<Longrightarrow> path e = p"
  by (auto simp: find_Some_iff)

lemma endpointByPath_path: "endpointByPath catalog p = Some e \<Longrightarrow> path e = p"
  unfolding endpointByPath_def by (rule find_path)

lemma offers_endpointByPath: "offers catalog p \<Longrightarrow> \<exists>e. endpointByPath catalog p = Some e \<and> path e = p"
  by (cases "endpointByPath catalog p")
     (auto simp: offers_def endpointByPath_def find_None_iff dest: find_path)

lemma not_offers_endpointByPath: "\<not> offers catalog p \<Longrightarrow> endpointByPath catalog p = None"
  by (auto simp: offers_def endpointByPath_def find_None_iff)

lemma filter_pushIf_other:
  "(\<And>e. \<not> P (build e)) \<Longrightarrow> filter P (pushIf found build acc) = filter P acc"
  by (cases found) (simp_all add: pushIf_def)

lemma filter_pushIf_hit:
  "found = Some e \<Longrightarrow> P (build e) \<Longrightarrow> filter P (pushIf found build acc) = filter P acc @ [build e]"
  by (simp add: pushIf_def)

lemma chooseCompactTextEndpoint_responses:
  "endpointByPath catalog ''/v1/responses'' = Some r \<Longrightarrow> chooseCompactTextEndpoint catalog = Some r"
  by (simp add: chooseCompactTextEndpoint_def split: option.splits)

lemma compact_text_tools:
  assumes "endpointByPath catalog ''/v1/responses'' = Some r"
  shows "filter (\<lambda>t. kind t = ''text_generate'') (makeCompactTools catalog config)
     = [TextGenerateTool
          \<lparr>name = ''albom_text_generate'', title = ''Text Generation'',
           description = ''Generate text responses via /v1/responses.'',
           annotations = DEFAULT_ANNOTATION\<rparr> ''/v1/responses'']"
proof -
  have p: "path r = ''/v1/responses''"
    using assms by (rule endpointByPath_path)
  have c: "chooseCompactTextEndpoint catalog = Some r"
    using assms by (rule chooseCompactTextEndpoint_responses)
  show ?thesis
    unfolding makeCompactTools_def Let_def
    by (simp add: filter_pushIf_other filter_pushIf_hit [OF c] p catalogGetTool_def rawCallTool_def)
qed


lemma compact_image_tools:
  assumes "endpointByPath catalog ''/v1/images/generations'' = Some g"
    and "endpointByPath catalog ''/v1/images/edits'' = Some e"
  shows "filter (\<lambda>t. kind t = ''image_generate'') (makeCompactTools catalog config)
     = [ImageGenerateTool
          \<lparr>name = ''albom_image_generate'', title = ''Image Generation'',
           description = ''Generate new images from text prompts.'',
           annotations = DEFAULT_ANNOTATION\<rparr> ''/v1/images/generations'']"
    and "filter (\<lambda>t. kind t = ''image_edit'') (makeCompactTools catalog config)
     = [ImageEditTool
          \<lparr>name = ''albom_image_edit'', title = ''Image Edit'',
           description = ''Edit an input image with prompt instructions.'',
           annotations = DEFAULT_ANNOTATION\<rparr> ''/v1/images/edits'']"
proof -
  have pg: "path g = ''/v1/images/generations''"
    using assms(1) by (rule endpointByPath_path)
  have pe: "path e = ''/v1/images/edits''"
    using assms(2) by (rule endpointByPath_path)
  show "filter (\<lambda>t. kind t = ''image_generate'') (makeCompactTools catalog config)
     = [ImageGenerateTool
          \<lparr>name = ''albom_image_generate'', title = ''Image Generation'',
           description = ''Generate new images from text prompts.'',
           annotations = DEFAULT_ANNOTATION\<rparr> ''/v1/images/generations'']"
    unfolding makeCompactTools_def Let_def
    by (simp add: filter_pushIf_other filter_pushIf_hit [OF assms(1)] pg catalogGetTool_def
        rawCallTool_def)
  show "filter (\<lambda>t. kind t = ''image_edit'') (makeCompactTools catalog config)
     = [ImageEditTool
          \<lparr>name = ''albom_image_edit'', title = ''Image Edit'',
           description = ''Edit an input image with prompt instructions.'',
           annotations = DEFAULT_ANNOTATION\<rparr> ''/v1/images/edits'']"
    unfolding makeCompactTools_def Let_def
    by (simp add: filter_pushIf_other filter_pushIf_hit [OF assms(2)] pe catalogGetTool_def
        rawCallTool_def)
qed

text \<open>
  Claim C8. In the compact profile, a catalog that offers both \<open>/v1/chat/completions\<close>
  and \<open>/v1/responses\<close> gets exactly one text-generation tool, routed to
  \<open>/v1/responses\<close>, whatever the model sets of the two endpoints are; and when it
  offers both image endpoints, there is one image-generate tool for
  \<open>/v1/images/generations\<close> and one image-edit tool for \<open>/v1/images/edits\<close>.
\<close>

theorem C8_compact_text_and_images:
  assumes "toolProfile config = Compact"
    and "offers catalog ''/v1/responses''" and "offers catalog ''/v1/chat/completions''"
  shows "filter (\<lambda>t. kind t = ''text_generate'') (tools (buildToolState digest catalog config))
     = [TextGenerateTool
          \<lparr>name = ''albom_text_generate'', title = ''Text Generation'',
           description = ''Generate text responses via /v1/responses.'',
           annotations = DEFAULT_ANNOTATION\<rparr> ''/v1/responses''] \<and>
   (offers catalog ''/v1/images/generations'' \<and> offers catalog ''/v1/images/edits'' \<longrightarrow>
      filter (\<lambda>t. kind t = ''image_generate'') (tools (buildToolState digest catalog config))
        = [ImageGenerateTool
             \<lparr>name = ''albom_image_generate'', title = ''Image Generation'',
              description = ''Generate new images from text prompts.'',
              annotations = DEFAULT_ANNOTATION\<rparr> ''/v1/images/generations''] \<and>
      filter (\<lambda>t. kind t = ''image_edit'') (tools (buildToolState digest catalog config))
        = [ImageEditTool
             \<lparr>name = ''albom_image_edit'', title = ''Image Edit'',
              description = ''Edit an input image with prompt instructions.'',
              annotations = DEFAULT_ANNOTATION\<rparr> ''/v1/images/edits''])"
proof -
  have t: "tools (buildToolState digest catalog config) = makeCompactTools catalog config"
    using assms(1) by (simp add: buildToolState_def Let_def)
  obtain r where r: "endpointByPath catalog ''/v1/responses'' = Some r"
    using offers_endpointByPath [OF assms(2)] by blast
  have tg: "filter (\<lambda>t. kind t = ''text_generate'') (makeCompactTools catalog config)
     = [TextGenerateTool
          \<lparr>name = ''albom_text_generate'', title = ''Text Generation'',
           description = ''Generate text responses via /v1/responses.'',
           annotations = DEFAULT_ANNOTATION\<rparr> ''/v1/responses'']"
    using r by (rule compact_text_tools)
  show ?thesis
  proof (cases "offers catalog ''/v1/images/generations'' \<and> offers catalog ''/v1/images/edits''")
    case False
    with tg t show ?thesis by auto
  next
    case True
    then obtain g e where "endpointByPath catalog ''/v1/images/generations'' = Some g"
      and "endpointByPath catalog ''/v1/images/edits'' = Some e"
      using offers_endpointByPath by blast
    then show ?thesis
      using tg t compact_image_tools [of catalog g e config] by simp
  qed
qed

lemma textCatalog_offers:
  "offers textCatalog ''/v1/responses''" "offers textCatalog ''/v1/chat/completions''"
  "offers textCatalog ''/v1/images/generations''" "offers textCatalog ''/v1/images/edits''"
  by (simp_all add: offers_def textCatalog_def catalogOf_def endpointAt_def)

theorem C8_compact_text_and_images_witness:
  "toolProfile compactConfig = Compact \<and>
   offers textCatalog ''/v1/responses'' \<and> offers textCatalog ''/v1/chat/completions'' \<and>
   offers textCatalog ''/v1/images/generations'' \<and> offers textCatalog ''/v1/images/edits'' \<and>
   modelSetJaccard (models (endpointAt ''openai'' ''/v1/chat/completions'' [''gpt-4o'', ''gpt-4o-mini'']))
                   (models (endpointAt ''openai'' ''/v1/responses'' [''gpt-4o'', ''gpt-4o-mini''])) = 1 \<and>
   map (\<lambda>t. (toolName t, endpointPath t))
     (filter (\<lambda>t. kind t = ''text_generate'') (tools (buildToolState namesDigest textCatalog compactConfig)))
     = [(''albom_text_generate'', Some ''/v1/responses'')] \<and>
   map (\<lambda>t. (toolName t, endpointPath t))
     (filter (\<lambda>t. kind t = ''image_generate'') (tools (buildToolState namesDigest textCatalog compactConfig)))
     = [(''albom_image_generate'', Some ''/v1/images/generations'')] \<and>
   map (\<lambda>t. (toolName t, endpointPath t))
     (filter (\<lambda>t. kind t = ''image_edit'') (tools (buildToolState namesDigest textCatalog compactConfig)))
     = [(''albom_image_edit'', Some ''/v1/images/edits'')]"
proof -
  have j: "modelSetJaccard (models (endpointAt ''openai'' ''/v1/chat/completions'' [''gpt-4o'', ''gpt-4o-mini'']))
                   (models (endpointAt ''openai'' ''/v1/responses'' [''gpt-4o'', ''gpt-4o-mini''])) = 1"
    by code_simp
  have c: "toolProfile compactConfig = Compact"
    by (simp add: compactConfig_def)
  show ?thesis
    using C8_compact_text_and_images [OF c textCatalog_offers(1) textCatalog_offers(2), of namesDigest]
      textCatalog_offers j c
    by (simp add: toolName_def)
qed


section \<open>Tool names meet the character constraint\<close>

text \<open>
  Every name that \<open>sanitizeToolName\<close> returns meets the character constraint, so every
  tool name of either profile does; and the names of the compact profile are pairwise
  different.
\<close>

lemma isNameChar_underscore: "isNameChar CHR ''_''"
  by (simp add: isNameChar_def)

lemma replaceInvalid_chars: "c \<in> set (replaceInvalid s) \<Longrightarrow> isNameChar c"
proof (induction s arbitrary: c rule: replaceInvalid.induct)
  case 1
  then show ?case by simp
next
  case (2 d ds)
  show ?case
  proof (cases "isNameChar d")
    case True
    then have "replaceInvalid (d # ds) = d # replaceInvalid ds" by simp
    with "2.prems" have "c = d \<or> c \<in> set (replaceInvalid ds)" by simp
    then show ?thesis
      using True "2.IH"(1) [OF True] by blast
  next
    case False
    then have "replaceInvalid (d # ds) =
        CHR ''_'' # replaceInvalid (dropWhile (\<lambda>d. \<not> isNameChar d) ds)" by simp
    with "2.prems" have "c = CHR ''_'' \<or>
        c \<in> set (replaceInvalid (dropWhile (\<lambda>d. \<not> isNameChar d) ds))" by simp
    then show ?thesis
      using isNameChar_underscore "2.IH"(2) [OF False] by blast
  qed
qed

lemma trimUnderscores_subset: "c \<in> set (trimUnderscores s) \<Longrightarrow> c \<in> set s"
proof -
  assume "c \<in> set (trimUnderscores s)"
  then have "c \<in> set (dropWhile (\<lambda>c. c = CHR ''_'') (rev (dropWhile (\<lambda>c. c = CHR ''_'') s)))"
    by (simp add: trimUnderscores_def)
  then have "c \<in> set (rev (dropWhile (\<lambda>c. c = CHR ''_'') s))"
    by (rule set_dropWhileD)
  then have "c \<in> set (dropWhile (\<lambda>c. c = CHR ''_'') s)"
    by simp
  then show ?thesis
    by (rule set_dropWhileD)
qed

lemma collapseUnderscores_subset: "c \<in> set (collapseUnderscores s) \<Longrightarrow> c \<in> set s"
proof (induction s arbitrary: c rule: collapseUnderscores.induct)
  case 1
  then show ?case by simp
next
  case (2 d ds)
  show ?case
  proof (cases "d = CHR ''_''")
    case True
    then have "collapseUnderscores (d # ds) =
        CHR ''_'' # collapseUnderscores (dropWhile (\<lambda>d. d = CHR ''_'') ds)" by simp
    with "2.prems" have "c = CHR ''_'' \<or>
        c \<in> set (collapseUnderscores (dropWhile (\<lambda>d. d = CHR ''_'') ds))" by simp
    then show ?thesis
    proof
      assume "c = CHR ''_''"
      with True show ?thesis by simp
    next
      assume "c \<in> set (collapseUnderscores (dropWhile (\<lambda>d. d = CHR ''_'') ds))"
      then have "c \<in> set (dropWhile (\<lambda>d. d = CHR ''_'') ds)"
        by (rule "2.IH"(1) [OF True])
      then have "c \<in> set ds" by (rule set_dropWhileD)
      then show ?thesis by simp
    qed
  next
    case False
    then have "collapseUnderscores (d # ds) = d # collapseUnderscores ds" by simp
    with "2.prems" have "c = d \<or> c \<in> set (collapseUnderscores ds)" by simp
    then show ?thesis
      using "2.IH"(2) [OF False] by auto
  qed
qed

lemma sanitizeToolName_chars: "c \<in> set (sanitizeToolName input) \<Longrightarrow> isNameChar c"
proof -
  assume "c \<in> set (sanitizeToolName input)"
  then have "c \<in> set (trimUnderscores (replaceInvalid (toLowerCase input)))"
    unfolding sanitizeToolName_def by (rule collapseUnderscores_subset)
  then have "c \<in> set (replaceInvalid (toLowerCase input))"
    by (rule trimUnderscores_subset)
  then show ?thesis
    by (rule replaceInvalid_chars)
qed

lemma uniqueNamesWithin_start: "uniqueNamesWithin {toolName t} [t]"
  by (simp add: uniqueNamesWithin_def)

lemma uniqueNamesWithin_push:
  assumes "uniqueNamesWithin S acc" "n \<notin> S" "\<And>e. toolName (build e) = n"
  shows "uniqueNamesWithin (insert n S) (pushIf found build acc)"
  using assms by (cases found) (auto simp: uniqueNamesWithin_def pushIf_def)

lemma uniqueNamesWithin_push_if:
  assumes "uniqueNamesWithin S acc" "n \<notin> S" "\<And>e. toolName (build e) = n"
  shows "uniqueNamesWithin (insert n S) (if b then pushIf found build acc else acc)"
  using assms by (cases found) (auto simp: uniqueNamesWithin_def pushIf_def)

lemma uniqueNamesWithin_raw:
  assumes "uniqueNamesWithin S acc" "n \<notin> S" "toolName t = n"
  shows "uniqueNamesWithin (insert n S) (if b then acc @ [t] else acc)"
  using assms by (auto simp: uniqueNamesWithin_def)

lemma compact_names_within:
  "uniqueNamesWithin
     (insert ''albom_raw_call'' (insert ''albom_embedding_create''
       (insert ''albom_safety_moderate'' (insert ''albom_video_generate''
         (insert ''albom_audio_speech'' (insert ''albom_audio_transcribe''
           (insert ''albom_image_edit'' (insert ''albom_image_generate''
             (insert ''albom_text_generate'' {toolName catalogGetTool})))))))))
     (makeCompactTools catalog config)"
  unfolding makeCompactTools_def Let_def
  apply (rule uniqueNamesWithin_raw)
    apply (rule uniqueNamesWithin_push_if)
      apply (rule uniqueNamesWithin_push_if)
        apply (rule uniqueNamesWithin_push_if)
          apply (rule uniqueNamesWithin_push)
            apply (rule uniqueNamesWithin_push)
              apply (rule uniqueNamesWithin_push)
                apply (rule uniqueNamesWithin_push)
                  apply (rule uniqueNamesWithin_push)
                    apply (rule uniqueNamesWithin_start)
                   apply (simp_all add: toolName_def catalogGetTool_def rawCallTool_def)
  done

lemma compact_names_distinct: "distinct (map toolName (makeCompactTools catalog config))"
  using compact_names_within [of catalog config] by (simp add: uniqueNamesWithin_def)

lemma last_dropWhile: "dropWhile P xs \<noteq> [] \<Longrightarrow> last (dropWhile P xs) = last xs"
proof (induction xs)
  case Nil
  then show ?case by simp
next
  case (Cons a xs)
  show ?case
  proof (cases "P a")
    case True
    with Cons.prems have ne: "dropWhile P xs \<noteq> []" by simp
    then have "xs \<noteq> []" by auto
    with True Cons.IH [OF ne] show ?thesis by simp
  next
    case False
    then show ?thesis by simp
  qed
qed

lemma trimUnderscores_ends:
  assumes "trimUnderscores s \<noteq> []"
  shows "hd (trimUnderscores s) \<noteq> CHR ''_'' \<and> last (trimUnderscores s) \<noteq> CHR ''_''"
proof -
  define v where "v = dropWhile (\<lambda>c. c = CHR ''_'') s"
  define u where "u = dropWhile (\<lambda>c. c = CHR ''_'') (rev v)"
  have t: "trimUnderscores s = rev u"
    by (simp add: trimUnderscores_def u_def v_def)
  with assms have u: "u \<noteq> []" by simp
  have v: "v \<noteq> []"
  proof
    assume "v = []"
    then have "u = []" by (simp add: u_def)
    with u show False by simp
  qed
  have hu: "hd u \<noteq> CHR ''_''"
    using u unfolding u_def by (rule hd_dropWhile)
  have hv: "hd v \<noteq> CHR ''_''"
    using v unfolding v_def by (rule hd_dropWhile)
  have "last u = last (rev v)"
    using u unfolding u_def by (rule last_dropWhile)
  also have "\<dots> = hd v"
    using v by (simp add: last_rev)
  finally have lu: "last u = hd v" .
  have "last (rev u) = hd u" using u by (simp add: last_rev)
  moreover have "hd (rev u) = last u" using u by (simp add: hd_rev)
  ultimately show ?thesis
    using t hu hv lu by simp
qed

lemma collapseUnderscores_hd:
  "s \<noteq> [] \<Longrightarrow> collapseUnderscores s \<noteq> [] \<and> hd (collapseUnderscores s) = hd s"
  by (cases s) simp_all

lemma collapseUnderscores_Nil: "collapseUnderscores s = [] \<Longrightarrow> s = []"
  by (cases s) (simp_all split: if_splits)

lemma collapseUnderscores_last:
  "s \<noteq> [] \<Longrightarrow> last s \<noteq> CHR ''_'' \<Longrightarrow> last (collapseUnderscores s) = last s"
proof (induction s rule: collapseUnderscores.induct)
  case 1
  then show ?case by simp
next
  case (2 d ds)
  show ?case
  proof (cases "d = CHR ''_''")
    case True
    let ?r = "dropWhile (\<lambda>d. d = CHR ''_'') ds"
    from True "2.prems" have ds: "ds \<noteq> []" "last ds \<noteq> CHR ''_''"
      by (auto split: if_splits)
    have r: "?r \<noteq> []"
    proof
      assume "?r = []"
      then have "\<forall>x \<in> set ds. x = CHR ''_''" by simp
      with ds show False using last_in_set by blast
    qed
    then have lr: "last ?r = last ds" by (rule last_dropWhile)
    with ds have "last ?r \<noteq> CHR ''_''" by simp
    with r have "last (collapseUnderscores ?r) = last ?r"
      by (rule "2.IH"(1) [OF True])
    moreover have "collapseUnderscores ?r \<noteq> []"
      using r collapseUnderscores_Nil by blast
    ultimately show ?thesis
      using True lr ds by simp
  next
    case False
    show ?thesis
    proof (cases "ds = []")
      case True
      with False show ?thesis by simp
    next
      case ne: False
      with "2.prems" have "last ds \<noteq> CHR ''_''" by simp
      with ne have "last (collapseUnderscores ds) = last ds"
        by (rule "2.IH"(2) [OF False])
      moreover have "collapseUnderscores ds \<noteq> []"
        using ne collapseUnderscores_Nil by blast
      ultimately show ?thesis
        using False ne by simp
    qed
  qed
qed

lemma noDoubleUnderscore_Cons:
  "noDoubleUnderscore (c # xs) =
     (xs = [] \<or> (\<not> (c = CHR ''_'' \<and> hd xs = CHR ''_'') \<and> noDoubleUnderscore xs))"
  by (cases xs) simp_all

lemma collapseUnderscores_noDouble: "noDoubleUnderscore (collapseUnderscores s)"
proof (induction s rule: collapseUnderscores.induct)
  case 1
  show ?case by simp
next
  case (2 d ds)
  show ?case
  proof (cases "d = CHR ''_''")
    case True
    let ?r = "dropWhile (\<lambda>d. d = CHR ''_'') ds"
    have eq: "collapseUnderscores (d # ds) = CHR ''_'' # collapseUnderscores ?r"
      using True by simp
    have ih: "noDoubleUnderscore (collapseUnderscores ?r)"
      by (rule "2.IH"(1) [OF True])
    have h: "collapseUnderscores ?r = [] \<or> hd (collapseUnderscores ?r) \<noteq> CHR ''_''"
    proof (cases "?r = []")
      case True
      then have "collapseUnderscores ?r = []" by (simp only: collapseUnderscores.simps)
      then show ?thesis by (rule disjI1)
    next
      case False
      then have "hd ?r \<noteq> CHR ''_''" by (rule hd_dropWhile)
      moreover have "hd (collapseUnderscores ?r) = hd ?r"
        using False collapseUnderscores_hd by blast
      ultimately show ?thesis by simp
    qed
    show ?thesis
      unfolding eq noDoubleUnderscore_Cons using ih h by blast
  next
    case False
    have eq: "collapseUnderscores (d # ds) = d # collapseUnderscores ds"
      using False by simp
    show ?thesis
      unfolding eq noDoubleUnderscore_Cons using "2.IH"(2) [OF False] False by blast
  qed
qed

lemma sanitizeToolName_valid: "validToolName (sanitizeToolName input)"
proof -
  let ?t = "trimUnderscores (replaceInvalid (toLowerCase input))"
  have chars: "\<forall>c \<in> set (sanitizeToolName input). isNameChar c"
    using sanitizeToolName_chars by blast
  have ends: "hd (sanitizeToolName input) \<noteq> CHR ''_'' \<and> last (sanitizeToolName input) \<noteq> CHR ''_''"
    if "sanitizeToolName input \<noteq> []"
  proof -
    have ne: "?t \<noteq> []"
    proof
      assume "?t = []"
      then have "sanitizeToolName input = []" by (simp add: sanitizeToolName_def)
      with that show False by simp
    qed
    then have e: "hd ?t \<noteq> CHR ''_''" "last ?t \<noteq> CHR ''_''"
      using trimUnderscores_ends by blast+
    from ne have "hd (collapseUnderscores ?t) = hd ?t"
      using collapseUnderscores_hd by blast
    moreover from ne e(2) have "last (collapseUnderscores ?t) = last ?t"
      by (rule collapseUnderscores_last)
    ultimately show ?thesis
      using e by (simp add: sanitizeToolName_def)
  qed
  have "noDoubleUnderscore (sanitizeToolName input)"
    unfolding sanitizeToolName_def by (rule collapseUnderscores_noDouble)
  with chars ends show ?thesis
    unfolding validToolName_def by blast
qed

lemma fullToolName_valid: "validToolName (fullToolName api p)"
  unfolding fullToolName_def Let_def by (rule sanitizeToolName_valid)

lemma fullEndpointLoop_valid:
  "\<forall>t \<in> set acc. validToolName (toolName t) \<Longrightarrow>
   \<forall>t \<in> set (fullEndpointLoop config es acc used). validToolName (toolName t)"
proof (induction es arbitrary: acc used)
  case Nil
  then show ?case by simp
next
  case (Cons e es)
  let ?name0 = "fullToolName (apiKey e) (path e)"
  let ?name1 = "if ?name0 \<in> used
                then sanitizeToolName (?name0 @ ''_'' @ toLowerCase (httpMethod e)) else ?name0"
  let ?tool = "FullEndpointTool
                \<lparr>name = ?name1, title = apiName e @ '' '' @ path e,
                 description = EndpointDescriptor.description e,
                 annotations = DEFAULT_ANNOTATION\<rparr>
                (path e) (contentType e) (fileField e)"
  have v: "validToolName (toolName ?tool)"
    by (simp add: toolName_def sanitizeToolName_valid fullToolName_valid)
  have acc': "\<forall>t \<in> set (acc @ [?tool]). validToolName (toolName t)"
    using Cons.prems v by simp
  show ?case
  proof (cases "httpMethod e \<noteq> ''POST'' \<or> \<not> shouldIncludeFullEndpoint e config")
    case True
    then have "fullEndpointLoop config (e # es) acc used = fullEndpointLoop config es acc used"
      by auto
    with Cons.IH [OF Cons.prems] show ?thesis by simp
  next
    case False
    then have "fullEndpointLoop config (e # es) acc used =
        fullEndpointLoop config es (acc @ [?tool]) (insert ?name1 used)"
      by (simp add: Let_def)
    with Cons.IH [OF acc'] show ?thesis by simp
  qed
qed

lemma fixed_names_valid:
  "validToolName ''albom_catalog_get''" "validToolName ''albom_raw_call''"
  "validToolName ''albom_text_generate''" "validToolName ''albom_image_generate''"
  "validToolName ''albom_image_edit''" "validToolName ''albom_audio_transcribe''"
  "validToolName ''albom_audio_speech''" "validToolName ''albom_video_generate''"
  "validToolName ''albom_safety_moderate''" "validToolName ''albom_embedding_create''"
  by code_simp+

lemma full_names_valid:
  "\<forall>t \<in> set (makeFullTools catalog config). validToolName (toolName t)"
proof -
  have "\<forall>t \<in> set [catalogGetTool]. validToolName (toolName t)"
    by (simp add: catalogGetTool_def toolName_def fixed_names_valid)
  then have "\<forall>t \<in> set (fullEndpointLoop config (endpoints catalog) [catalogGetTool]
      (set (map toolName [catalogGetTool]))). validToolName (toolName t)"
    by (rule fullEndpointLoop_valid)
  moreover have "validToolName (toolName rawCallTool)"
    by (simp add: rawCallTool_def toolName_def fixed_names_valid)
  ultimately show ?thesis
    by (simp add: makeFullTools_def Let_def)
qed

lemma compact_names_valid:
  "\<forall>t \<in> set (makeCompactTools catalog config). validToolName (toolName t)"
proof
  fix t assume "t \<in> set (makeCompactTools catalog config)"
  then have "toolName t \<in> set (map toolName (makeCompactTools catalog config))" by simp
  with compact_names_within [of catalog config]
  have "toolName t \<in> {''albom_raw_call'', ''albom_embedding_create'', ''albom_safety_moderate'',
      ''albom_video_generate'', ''albom_audio_speech'', ''albom_audio_transcribe'',
      ''albom_image_edit'', ''albom_image_generate'', ''albom_text_generate'', ''albom_catalog_get''}"
    unfolding uniqueNamesWithin_def by (auto simp: toolName_def catalogGetTool_def)
  then show "validToolName (toolName t)"
    using fixed_names_valid by auto
qed

lemma tool_names_valid:
  "\<forall>t \<in> set (tools (buildToolState digest catalog config)). validToolName (toolName t)"
  using compact_names_valid [of catalog config] full_names_valid [of catalog config]
  by (simp add: buildToolState_def Let_def)

lemma compact_tool_names_distinct:
  "toolProfile config = Compact \<Longrightarrow>
   distinct (map toolName (tools (buildToolState digest catalog config)))"
  using compact_names_distinct [of catalog config] by (simp add: buildToolState_def Let_def)


section \<open>Tool names of the full profile\<close>

text \<open>
  Claim C9 says that the tool names of a tool state are pairwise different and meet the
  character constraint, a collision in the full profile being broken by a suffix made
  from the method. The full profile repeats a name in two cases: the raw-call tool is
  pushed without a look at \<open>usedNames\<close>, and a name that got the suffix is not looked
  up again.
\<close>

theorem C9_full_profile_repeats_names:
  "map toolName (tools (buildToolState namesDigest rawCollisionCatalog (fullConfig\<lparr>allowRawTool := True\<rparr>)))
     = [''albom_catalog_get'', ''albom_raw_call'', ''albom_raw_call''] \<and>
   map toolName (tools (buildToolState namesDigest repeatedCatalog fullConfig))
     = [''albom_catalog_get'', ''albom_openai_responses'',
        ''albom_openai_responses_post'', ''albom_openai_responses_post''] \<and>
   \<not> distinct (map toolName (tools (buildToolState namesDigest rawCollisionCatalog
         (fullConfig\<lparr>allowRawTool := True\<rparr>)))) \<and>
   \<not> distinct (map toolName (tools (buildToolState namesDigest repeatedCatalog fullConfig)))"
proof -
  have a: "map toolName (tools (buildToolState namesDigest rawCollisionCatalog (fullConfig\<lparr>allowRawTool := True\<rparr>)))
     = [''albom_catalog_get'', ''albom_raw_call'', ''albom_raw_call'']"
    by code_simp
  have b: "map toolName (tools (buildToolState namesDigest repeatedCatalog fullConfig))
     = [''albom_catalog_get'', ''albom_openai_responses'',
        ''albom_openai_responses_post'', ''albom_openai_responses_post'']"
    by code_simp
  show ?thesis
    unfolding a b by simp
qed


section \<open>The retry loop\<close>



lemma response_eta:
  "\<lparr>status = status r, headers = headers r, data = data r\<rparr> = (r :: NormalizedHttpResponse)"
  by simp

text \<open>The effect of the auto-pay branch.\<close>

lemma autoPay_cases:
  assumes "status response = 402"
  shows "autoPay env handler url init response w =
    (case parseL402Challenge (headers response) (data response) of
       None \<Rightarrow> (Inr response, w)
     | Some challenge \<Rightarrow>
        (case handler challenge of
           Inl e \<Rightarrow> (Inr response, w\<lparr>paid := paid w @ [challenge]\<rparr>)
         | Inr pre \<Rightarrow>
            (let init' = init\<lparr>reqHeaders := (reqHeaders init)
                    (''authorization'' \<mapsto> buildL402Authorization (macaroon challenge) pre)\<rparr>;
                 w1 = w\<lparr>paid := paid w @ [challenge]\<rparr>;
                 out = fetchFn env w1 url init'
             in (case out of Rejected e \<Rightarrow> Inr response | Resolved retryResponse \<Rightarrow> Inr retryResponse,
                 w1\<lparr>fetched := fetched w1 @ [(url, init', out)]\<rparr>))))"
proof -
  have r: "\<lparr>status = 402, headers = headers response, data = data response\<rparr> = response"
    using assms response_eta [of response] by simp
  show ?thesis
    by (simp add: autoPay_def Let_def r fetchWithTimeout_def split: option.splits sum.splits FetchResult.splits)
qed





lemma attemptLoop_autoPay:
  assumes "int a \<le> maxRetries opts" "fetchFn env w url init = Resolved r"
    "status r = 402" "l402Handler opts = Some handler"
  shows "attemptLoop opts env url init a w =
     autoPay env handler url init r (w\<lparr>fetched := fetched w @ [(url, init, Resolved r)]\<rparr>)"
  using assms by (subst attemptLoop.simps) (simp add: Let_def fetchWithTimeout_def)



















section \<open>Paying a challenge\<close>

text \<open>
  Claim C2. At any attempt within the budget, a 402 met with a payment handler
  configured ends the call without a delay: the challenge is parsed from the response;
  without a challenge the 402 is the result; with one, the handler is asked for the
  preimage, the request is sent once more with the header \<open>Authorization: L402
  macaroon:preimage\<close>, and the response of that replay is the result whatever its
  status; when the handler or the replay fails, the 402 is the result.
\<close>

theorem C2_auto_pay:
  assumes "l402Handler opts = Some handler" "int a \<le> maxRetries opts"
    and "fetchFn env w url init = Resolved r" "status r = 402"
  shows "attemptLoop opts env url init a w =
    (case parseL402Challenge (headers r) (data r) of
       None \<Rightarrow> (Inr r, w\<lparr>fetched := fetched w @ [(url, init, Resolved r)]\<rparr>)
     | Some challenge \<Rightarrow>
        (case handler challenge of
           Inl e \<Rightarrow> (Inr r, w\<lparr>fetched := fetched w @ [(url, init, Resolved r)],
                           paid := paid w @ [challenge]\<rparr>)
         | Inr pre \<Rightarrow>
            (let replay = init\<lparr>reqHeaders := (reqHeaders init)
                    (''authorization'' \<mapsto> ''L402 '' @ macaroon challenge @ '':'' @ pre)\<rparr>;
                 w1 = w\<lparr>fetched := fetched w @ [(url, init, Resolved r)],
                        paid := paid w @ [challenge]\<rparr>;
                 out = fetchFn env w1 url replay
             in (case out of Rejected e \<Rightarrow> Inr r | Resolved retryResponse \<Rightarrow> Inr retryResponse,
                 w1\<lparr>fetched := fetched w1 @ [(url, replay, out)]\<rparr>))))"
  unfolding attemptLoop_autoPay [OF assms(2,3,4,1)] autoPay_cases [OF assms(4)]
  by (simp add: Let_def buildL402Authorization_def split: option.splits sum.splits)

lemma challenge402_parses:
  "parseL402Challenge (headers challenge402) (data challenge402) = Some standardChallenge"
  by code_simp

theorem C2_auto_pay_witness:
  "attemptLoop autoPayOptions challengeEnv ''u'' jsonInit 0 emptyWorld =
     (Inr okResponse,
      \<lparr>fetched = [(''u'', jsonInit, Resolved challenge402),
                  (''u'', jsonInit\<lparr>reqHeaders := (reqHeaders jsonInit)
                       (''authorization'' \<mapsto> ''L402 mac_abc123:00ff'')\<rparr>, Resolved okResponse)],
       paid = [standardChallenge], slept = []\<rparr>) \<and>
   attemptLoop (autoPayOptions\<lparr>l402Handler := Some failingHandler\<rparr>) challengeEnv ''u'' jsonInit 0
       emptyWorld =
     (Inr challenge402,
      \<lparr>fetched = [(''u'', jsonInit, Resolved challenge402)], paid = [standardChallenge], slept = []\<rparr>)"
proof -
  have f: "fetchFn challengeEnv emptyWorld ''u'' jsonInit = Resolved challenge402"
    by (simp add: challengeEnv_def emptyWorld_def)
  have s: "status challenge402 = 402"
    by (simp add: challenge402_def)
  have h1: "l402Handler autoPayOptions = Some payingHandler"
    and h2: "l402Handler (autoPayOptions\<lparr>l402Handler := Some failingHandler\<rparr>) = Some failingHandler"
    and m1: "int 0 \<le> maxRetries autoPayOptions"
    and m2: "int 0 \<le> maxRetries (autoPayOptions\<lparr>l402Handler := Some failingHandler\<rparr>)"
    by (simp_all add: autoPayOptions_def plainOptions_def)
  show ?thesis
    using C2_auto_pay [OF h1 m1 f s] C2_auto_pay [OF h2 m2 f s]
    by (simp add: challenge402_parses payingHandler_def failingHandler_def standardChallenge_def
        challengeEnv_def emptyWorld_def Let_def)
qed

end
